theory Spec2Isabelle
  imports Complex_Main "HOL-Library.Log_Nat"
begin

section \<open>Conventions of the embedding\<close>

text \<open>
  The repository is Python. Its \<^verbatim>\<open>float\<close> values are embedded as \<^typ>\<open>real\<close>, and a computed
  value is in general the exact one: the last-place rounding of a sum, difference, product
  or quotient is idealised away. Two things are not idealised. Every place where Python
  raises on a float operation (\<^verbatim>\<open>ZeroDivisionError\<close>) is an explicit branch of the model.
  And where rounding decides whether a call raises or returns (the funds check of
  \<^verbatim>\<open>add_position\<close>, the quotient \<^verbatim>\<open>b\<close> of \<^verbatim>\<open>calculate_kelly_criterion\<close>, which can underflow
  to zero or overflow to infinity) the value is rounded to the nearest double, as
  section \<open>Double-precision values\<close> defines it. Python \<^verbatim>\<open>int\<close> counters are \<^typ>\<open>int\<close>.
  Exceptions are values of the type \<open>error\<close>; a method that mutates its object returns the
  object it leaves behind next to its outcome, also when it raises. Readings of the wall
  clock (\<^verbatim>\<open>datetime.now()\<close>, \<^verbatim>\<open>time.time()\<close>) are arguments.
\<close>

datatype error =
    InsufficientFundsException real real
  | RiskManagementException
  | InvalidIndicatorException
  | InsufficientDataException int nat
  | RateLimitException
  | ZeroDivisionError
  | ValueError
  | IndexError

type_synonym datetime = int

subsection \<open>\<^verbatim>\<open>str.lower\<close> on ASCII text\<close>

definition lower_char :: "char \<Rightarrow> char" where
  "lower_char c =
     (let n = (of_char c :: nat) in if 65 \<le> n \<and> n \<le> 90 then char_of (n + 32) else c)"

definition lower :: "string \<Rightarrow> string" where
  "lower s = map lower_char s"

text \<open>
  Python's \<^verbatim>\<open>x or d\<close> on an optional float: \<^verbatim>\<open>None\<close> and \<^verbatim>\<open>0.0\<close> are both falsy.
\<close>

definition or_default :: "real option \<Rightarrow> real \<Rightarrow> real" where
  "or_default x d = (case x of None \<Rightarrow> d | Some v \<Rightarrow> if v = 0 then d else v)"

section \<open>Double-precision values\<close>

text \<open>
  A value of an IEEE 754 double, as Python's \<^verbatim>\<open>float\<close> and \<^verbatim>\<open>numpy.float64\<close> have it, where
  the special values matter: a finite number (zero unsigned), the two infinities, or NaN,
  with the IEEE rules for them. Every comparison with NaN is false. In the series
  arithmetic of pandas a division by zero does not raise: it yields an infinity, or NaN
  for \<^verbatim>\<open>0/0\<close>, and \<open>np_div\<close> does the same; Python's own \<^verbatim>\<open>/\<close> raises, and a model of it
  tests the divisor before it calls \<open>np_div\<close>.
\<close>

datatype npfloat = Fin real | PInf | NInf | NaN

fun np_neg :: "npfloat \<Rightarrow> npfloat" where
  "np_neg (Fin a) = Fin (- a)"
| "np_neg PInf = NInf"
| "np_neg NInf = PInf"
| "np_neg NaN = NaN"

fun np_add :: "npfloat \<Rightarrow> npfloat \<Rightarrow> npfloat" where
  "np_add NaN _ = NaN"
| "np_add _ NaN = NaN"
| "np_add (Fin a) (Fin b) = Fin (a + b)"
| "np_add PInf NInf = NaN"
| "np_add NInf PInf = NaN"
| "np_add PInf _ = PInf"
| "np_add _ PInf = PInf"
| "np_add NInf _ = NInf"
| "np_add _ NInf = NInf"

definition np_sub :: "npfloat \<Rightarrow> npfloat \<Rightarrow> npfloat" where
  "np_sub a b = np_add a (np_neg b)"

fun np_mul :: "npfloat \<Rightarrow> npfloat \<Rightarrow> npfloat" where
  "np_mul NaN _ = NaN"
| "np_mul _ NaN = NaN"
| "np_mul (Fin a) (Fin b) = Fin (a * b)"
| "np_mul (Fin a) PInf = (if a = 0 then NaN else if a > 0 then PInf else NInf)"
| "np_mul (Fin a) NInf = (if a = 0 then NaN else if a > 0 then NInf else PInf)"
| "np_mul PInf (Fin b) = (if b = 0 then NaN else if b > 0 then PInf else NInf)"
| "np_mul NInf (Fin b) = (if b = 0 then NaN else if b > 0 then NInf else PInf)"
| "np_mul PInf PInf = PInf"
| "np_mul NInf NInf = PInf"
| "np_mul PInf NInf = NInf"
| "np_mul NInf PInf = NInf"

fun np_div :: "npfloat \<Rightarrow> npfloat \<Rightarrow> npfloat" where
  "np_div NaN _ = NaN"
| "np_div _ NaN = NaN"
| "np_div (Fin a) (Fin b) =
     (if b \<noteq> 0 then Fin (a / b) else if a = 0 then NaN else if a > 0 then PInf else NInf)"
| "np_div (Fin a) _ = Fin 0"
| "np_div PInf (Fin b) = (if b \<ge> 0 then PInf else NInf)"
| "np_div NInf (Fin b) = (if b \<ge> 0 then NInf else PInf)"
| "np_div _ _ = NaN"

fun np_lt :: "npfloat \<Rightarrow> npfloat \<Rightarrow> bool" where
  "np_lt NaN _ = False"
| "np_lt _ NaN = False"
| "np_lt (Fin a) (Fin b) = (a < b)"
| "np_lt _ NInf = False"
| "np_lt NInf _ = True"
| "np_lt PInf _ = False"
| "np_lt _ PInf = True"

fun np_le :: "npfloat \<Rightarrow> npfloat \<Rightarrow> bool" where
  "np_le NaN _ = False"
| "np_le _ NaN = False"
| "np_le (Fin a) (Fin b) = (a \<le> b)"
| "np_le NInf _ = True"
| "np_le _ PInf = True"
| "np_le _ _ = False"

fun np_abs :: "npfloat \<Rightarrow> npfloat" where
  "np_abs (Fin a) = Fin \<bar>a\<bar>"
| "np_abs NaN = NaN"
| "np_abs _ = PInf"

text \<open>
  Python's built-in \<^verbatim>\<open>min(a, b)\<close> and \<^verbatim>\<open>max(a, b)\<close>: the second argument only if it is
  strictly smaller, or strictly larger, than the first.
\<close>

definition py_min :: "npfloat \<Rightarrow> npfloat \<Rightarrow> npfloat" where
  "py_min a b = (if np_lt b a then b else a)"

definition py_max :: "npfloat \<Rightarrow> npfloat \<Rightarrow> npfloat" where
  "py_max a b = (if np_lt a b then b else a)"

subsection \<open>Rounding to the nearest double\<close>

text \<open>\<open>pow2 k\<close> is \<open>2\<^sup>k\<close> for an integer \<open>k\<close> of either sign.\<close>

definition pow2 :: "int \<Rightarrow> real" where
  "pow2 k = (if 0 \<le> k then 2 ^ nat k else 1 / 2 ^ nat (- k))"

text \<open>
  The binary exponent of a positive number \<open>x\<close>: the \<open>e\<close> with \<open>2\<^sup>e \<le> x < 2\<^sup>e\<^sup>+\<^sup>1\<close>, read off
  the bit length of \<open>\<lfloor>x\<rfloor>\<close> when \<open>x \<ge> 1\<close> and of \<open>\<lceil>1/x\<rceil> - 1\<close> when \<open>x < 1\<close>.
\<close>

definition binary_exponent :: "real \<Rightarrow> int" where
  "binary_exponent x =
     (if 1 \<le> x then bitlen \<lfloor>x\<rfloor> - 1 else - bitlen (\<lceil>1 / x\<rceil> - 1))"

text \<open>Rounding to the nearest integer, a tie going to the even one.\<close>

definition round_half_even :: "real \<Rightarrow> int" where
  "round_half_even y =
     (let f = \<lfloor>y\<rfloor> in
      if y - of_int f < 1 / 2 then f
      else if y - of_int f > 1 / 2 then f + 1
      else if even f then f else f + 1)"

text \<open>
  Round-to-nearest-even onto the grid of the doubles: 53 significant bits, so a spacing of
  \<open>2\<^sup>e\<^sup>-\<^sup>5\<^sup>2\<close> in the binade of exponent \<open>e\<close>, and the fixed spacing \<open>2\<^sup>-\<^sup>1\<^sup>0\<^sup>7\<^sup>4\<close> of the subnormal
  numbers below exponent \<open>-1022\<close> (where a small enough number rounds to zero). The exponent
  is not bounded above here: \<open>round_nearest\<close> is the finite number IEEE 754 rounds to before
  it tests for overflow.
\<close>

definition round_nearest :: "real \<Rightarrow> real" where
  "round_nearest x =
     (if x = 0 then 0
      else
        let e = max (binary_exponent \<bar>x\<bar>) (- 1022);
            ulp = pow2 (e - 52)
        in of_int (round_half_even (x / ulp)) * ulp)"

text \<open>
  The double a real result is stored as: the rounded number, or an infinity when the
  rounded number reaches \<open>2\<^sup>1\<^sup>0\<^sup>2\<^sup>4\<close> in size.
\<close>

definition round_double :: "real \<Rightarrow> npfloat" where
  "round_double x =
     (let r = round_nearest x in
      if \<bar>r\<bar> \<ge> pow2 1024 then (if r > 0 then PInf else NInf) else Fin r)"

section \<open>Risk and sizing (\<^verbatim>\<open>position_sizer.py\<close>)\<close>

record position_size =
  base_size :: real
  quote_size :: real
  risk_amount :: real
  risk_percentage :: real
  stop_loss_price :: "real option"
  take_profit_price :: "real option"

record risk_limits =
  max_risk_per_trade :: real
  max_daily_loss :: real
  max_positions :: int
  min_position_size :: real
  max_position_size :: real

text \<open>
  \<^verbatim>\<open>PositionSizer.calculate_position_size\<close>. The sizer's \<^verbatim>\<open>risk_limits\<close> (read from the
  settings when the object is built) are the first argument. The code after the side check
  (from \<^verbatim>\<open>risk_amount = ...\<close> to the \<^verbatim>\<open>return\<close>) is \<open>size_from_risk\<close>; no division in
  it can fail, since the checks before it make \<^verbatim>\<open>risk_per_unit\<close>, \<^verbatim>\<open>entry_price\<close> and
  \<^verbatim>\<open>account_balance\<close> positive.
\<close>

definition size_from_risk ::
  "risk_limits \<Rightarrow> real \<Rightarrow> real \<Rightarrow> real \<Rightarrow> real \<Rightarrow> real \<Rightarrow> position_size" where
  "size_from_risk rl account_bal entry stop risk_pct risk_per_unit =
     (let risk_amt = account_bal * (risk_pct / 100);
          base0 = risk_amt / risk_per_unit;
          base1 = max base0 (min_position_size rl);
          base2 = min base1 (max_position_size rl);
          quote = base2 * entry
      in if quote > account_bal then
           let base3 = account_bal / entry;
               risk_amt' = base3 * risk_per_unit
           in \<lparr>base_size = base3, quote_size = account_bal, risk_amount = risk_amt',
                risk_percentage = (risk_amt' / account_bal) * 100,
                stop_loss_price = Some stop, take_profit_price = None\<rparr>
         else
           \<lparr>base_size = base2, quote_size = quote, risk_amount = risk_amt,
            risk_percentage = risk_pct,
            stop_loss_price = Some stop, take_profit_price = None\<rparr>)"

definition calculate_position_size ::
  "risk_limits \<Rightarrow> real \<Rightarrow> real \<Rightarrow> real \<Rightarrow> string \<Rightarrow> real option \<Rightarrow> error + position_size" where
  "calculate_position_size rl account_bal entry stop side_str risk_percentage_arg =
     (if account_bal \<le> 0 then Inl RiskManagementException
      else if entry \<le> 0 \<or> stop \<le> 0 then Inl RiskManagementException
      else
        let risk_pct = or_default risk_percentage_arg (max_risk_per_trade rl) in
        if lower side_str = ''buy'' then
          (if stop \<ge> entry then Inl RiskManagementException
           else Inr (size_from_risk rl account_bal entry stop risk_pct (entry - stop)))
        else
          (if stop \<le> entry then Inl RiskManagementException
           else Inr (size_from_risk rl account_bal entry stop risk_pct (stop - entry))))"

text \<open>
  \<^verbatim>\<open>PositionSizer.calculate_kelly_criterion\<close>. The ratio \<^verbatim>\<open>b = avg_win / avg_loss\<close> is the float
  quotient: rounded to a double, so zero when the exact quotient underflows and infinite
  when it overflows. The quotient \<^verbatim>\<open>(b * p - q) / b\<close> raises \<^verbatim>\<open>ZeroDivisionError\<close> when \<^verbatim>\<open>b\<close>
  is zero; with an infinite \<^verbatim>\<open>b\<close> it is \<^verbatim>\<open>inf / inf\<close>, NaN, which \<^verbatim>\<open>min\<close> passes on and
  \<^verbatim>\<open>max(0, ...)\<close> turns into 0. The result is returned as a percentage.
\<close>

definition calculate_kelly_criterion :: "real \<Rightarrow> real \<Rightarrow> real \<Rightarrow> error + npfloat" where
  "calculate_kelly_criterion win_rate avg_win avg_loss =
     (if avg_loss \<le> 0 then Inl RiskManagementException
      else
        let b = round_double (avg_win / avg_loss);
            p = Fin win_rate;
            q = Fin (1 - win_rate)
        in if b = Fin 0 then Inl ZeroDivisionError
           else
             let kelly_fraction = np_div (np_sub (np_mul b p) q) b;
                 kelly_fraction' = py_max (Fin 0) (py_min kelly_fraction (Fin (25 / 100)))
             in Inr (np_mul kelly_fraction' (Fin 100)))"

text \<open>\<^verbatim>\<open>StopLossManager.update_trailing_stop\<close>.\<close>

definition update_trailing_stop :: "real \<Rightarrow> real \<Rightarrow> real \<Rightarrow> string \<Rightarrow> real \<Rightarrow> real" where
  "update_trailing_stop current_price entry current_stop side_str trailing_percentage =
     (if lower side_str = ''buy'' then
        let new_stop = current_price * (1 - trailing_percentage / 100)
        in max current_stop new_stop
      else
        let new_stop = current_price * (1 + trailing_percentage / 100)
        in min current_stop new_stop)"

section \<open>Positions (\<^verbatim>\<open>base_strategy.py\<close>) and the portfolio ledger (\<^verbatim>\<open>portfolio_manager.py\<close>)\<close>

record position =
  symbol :: string
  side :: string
  size_pos :: real
  entry_price :: real
  current_price :: real
  stop_loss :: "real option"
  take_profit :: "real option"
  unrealized_pnl :: real
  timestamp :: "datetime option"
  order_id :: "string option"

record account_balance =
  total_balance :: real
  available_balance :: real
  reserved_balance :: real
  currency :: string
  last_updated :: datetime

record trade_history =
  th_symbol :: string
  th_side :: string
  th_entry_price :: real
  exit_price :: real
  th_size :: real
  pnl :: real
  entry_time :: datetime
  exit_time :: datetime
  strategy :: string
  reason :: string

record portfolio_manager =
  account_balance :: account_balance
  positions :: "string \<rightharpoonup> position"
  trade_history :: "trade_history list"
  daily_pnl_history :: "(datetime \<times> real) list"
  balance_history :: "(datetime \<times> real) list"
  peak_balance :: real
  max_drawdown :: real
  total_trades :: int
  winning_trades :: int
  losing_trades :: int
  total_realized_pnl :: real
  daily_pnl :: real
  last_daily_reset :: datetime

text \<open>\<^verbatim>\<open>PortfolioManager.__init__\<close>; \<open>now\<close> is the clock at construction.\<close>

definition portfolio_init :: "real \<Rightarrow> string \<Rightarrow> datetime \<Rightarrow> portfolio_manager" where
  "portfolio_init initial_balance cur now =
     \<lparr>account_balance =
        \<lparr>total_balance = initial_balance, available_balance = initial_balance,
         reserved_balance = 0, currency = cur, last_updated = now\<rparr>,
      positions = Map.empty, trade_history = [],
      daily_pnl_history = [], balance_history = [],
      peak_balance = initial_balance, max_drawdown = 0,
      total_trades = 0, winning_trades = 0, losing_trades = 0,
      total_realized_pnl = 0, daily_pnl = 0, last_daily_reset = now\<rparr>"

text \<open>
  \<^verbatim>\<open>PortfolioManager.add_position\<close>. The exception is raised before any assignment, so the
  object it leaves behind is the one it found. \<^verbatim>\<open>required_value\<close> is the float product,
  rounded to the nearest double, and the funds check compares that rounded value. (A
  product beyond the range of the doubles stays finite here where the code has an
  infinity; against a balance that is a double the comparison comes out the same.)
\<close>

definition add_position ::
  "portfolio_manager \<Rightarrow> position \<Rightarrow> datetime \<Rightarrow> (error + bool) \<times> portfolio_manager" where
  "add_position pm p now =
     (let required_value = round_nearest (size_pos p * entry_price p);
          ab = account_balance pm
      in if required_value > available_balance ab then
           (Inl (InsufficientFundsException required_value (available_balance ab)), pm)
         else
           (Inr True,
            pm\<lparr>positions := (positions pm)(symbol p \<mapsto> p),
               account_balance :=
                 ab\<lparr>available_balance := available_balance ab - required_value,
                    reserved_balance := reserved_balance ab + required_value,
                    last_updated := now\<rparr>\<rparr>))"

text \<open>
  The profit or loss of a position at an exit price, as \<^verbatim>\<open>close_position\<close>,
  \<^verbatim>\<open>update_position_prices\<close> and \<^verbatim>\<open>BaseStrategy.remove_position\<close> each compute it: the long
  formula for the side \<^verbatim>\<open>"buy"\<close>, the short formula for every other side.
\<close>

definition position_pnl :: "position \<Rightarrow> real \<Rightarrow> real" where
  "position_pnl p price =
     (if side p = ''buy'' then (price - entry_price p) * size_pos p
      else (entry_price p - price) * size_pos p)"

text \<open>
  \<^verbatim>\<open>PortfolioManager.close_position\<close>. The statements run in the source's order: balances,
  counters, peak balance, then the drawdown quotient \<^verbatim>\<open>(peak - total) / peak\<close>, which
  raises \<^verbatim>\<open>ZeroDivisionError\<close> when the peak balance is zero. At that point the balances,
  the counters and the peak are already updated, while the drawdown, the trade history and
  the position table are not; that half-updated object is what the raising call leaves.
\<close>

definition close_position ::
  "portfolio_manager \<Rightarrow> string \<Rightarrow> real \<Rightarrow> string \<Rightarrow> string \<Rightarrow> datetime
     \<Rightarrow> (error + real option) \<times> portfolio_manager" where
  "close_position pm symb exit_p why strat now =
     (case positions pm symb of
        None \<Rightarrow> (Inr None, pm)
      | Some p \<Rightarrow>
          let pnl_v = position_pnl p exit_p;
              close_value = size_pos p * exit_p;
              ab = account_balance pm;
              ab' = ab\<lparr>available_balance := available_balance ab + close_value,
                       reserved_balance := reserved_balance ab - size_pos p * entry_price p,
                       total_balance := total_balance ab + pnl_v,
                       last_updated := now\<rparr>;
              pm1 = pm\<lparr>account_balance := ab',
                       total_trades := total_trades pm + 1,
                       total_realized_pnl := total_realized_pnl pm + pnl_v,
                       daily_pnl := daily_pnl pm + pnl_v\<rparr>;
              pm2 = (if pnl_v > 0 then pm1\<lparr>winning_trades := winning_trades pm1 + 1\<rparr>
                     else pm1\<lparr>losing_trades := losing_trades pm1 + 1\<rparr>);
              pm3 = (if total_balance ab' > peak_balance pm2
                     then pm2\<lparr>peak_balance := total_balance ab'\<rparr> else pm2)
          in if peak_balance pm3 = 0 then (Inl ZeroDivisionError, pm3)
             else
               let current_drawdown = (peak_balance pm3 - total_balance ab') / peak_balance pm3;
                   trade_record =
                     \<lparr>th_symbol = symb, th_side = side p, th_entry_price = entry_price p,
                      exit_price = exit_p, th_size = size_pos p, pnl = pnl_v,
                      entry_time = (case timestamp p of Some t \<Rightarrow> t | None \<Rightarrow> now),
                      exit_time = now, strategy = strat, reason = why\<rparr>
               in (Inr (Some pnl_v),
                   pm3\<lparr>max_drawdown := max (max_drawdown pm3) current_drawdown,
                       trade_history := trade_history pm3 @ [trade_record],
                       positions := (positions pm3)(symb := None)\<rparr>))"

text \<open>
  \<^verbatim>\<open>PortfolioManager.update_position_prices\<close>: the price dictionary is an association list
  in iteration order.
\<close>

definition update_one_price :: "portfolio_manager \<Rightarrow> string \<times> real \<Rightarrow> portfolio_manager" where
  "update_one_price pm sp =
     (case positions pm (fst sp) of
        None \<Rightarrow> pm
      | Some p \<Rightarrow>
          pm\<lparr>positions := (positions pm)(fst sp \<mapsto>
               p\<lparr>current_price := snd sp, unrealized_pnl := position_pnl p (snd sp)\<rparr>)\<rparr>)"

definition update_position_prices ::
  "portfolio_manager \<Rightarrow> (string \<times> real) list \<Rightarrow> portfolio_manager" where
  "update_position_prices pm prices = foldl update_one_price pm prices"

text \<open>\<^verbatim>\<open>PortfolioManager.reset_daily_metrics\<close>.\<close>

definition reset_daily_metrics :: "portfolio_manager \<Rightarrow> datetime \<Rightarrow> portfolio_manager" where
  "reset_daily_metrics pm now =
     (let pm1 = (if daily_pnl pm \<noteq> 0
                 then pm\<lparr>daily_pnl_history := daily_pnl_history pm @ [(now, daily_pnl pm)]\<rparr>
                 else pm)
      in pm1\<lparr>balance_history :=
                 balance_history pm1 @ [(now, total_balance (account_balance pm1))],
              daily_pnl := 0, last_daily_reset := now\<rparr>)"

text \<open>
  A caller's sequence of ledger calls. A raising call hands control back to the caller, who
  goes on with the object as the call left it.
\<close>

datatype ledger_call =
    AddPosition position datetime
  | ClosePosition string real string string datetime
  | UpdatePrices "(string \<times> real) list"
  | ResetDaily datetime

fun ledger_step :: "portfolio_manager \<Rightarrow> ledger_call \<Rightarrow> portfolio_manager" where
  "ledger_step pm (AddPosition p now) = snd (add_position pm p now)"
| "ledger_step pm (ClosePosition symb exit_p why strat now) =
     snd (close_position pm symb exit_p why strat now)"
| "ledger_step pm (UpdatePrices prices) = update_position_prices pm prices"
| "ledger_step pm (ResetDaily now) = reset_daily_metrics pm now"

text \<open>The objects a sequence of calls passes through, the starting one first.\<close>

fun ledger_trace :: "portfolio_manager \<Rightarrow> ledger_call list \<Rightarrow> portfolio_manager list" where
  "ledger_trace pm [] = [pm]"
| "ledger_trace pm (c # cs) = pm # ledger_trace (ledger_step pm c) cs"

subsection \<open>The strategy's own bookkeeping (\<^verbatim>\<open>BaseStrategy\<close>)\<close>

record risk_manager =
  rm_daily_pnl :: real
  open_positions :: int
  total_exposure :: real

record base_strategy =
  strat_positions :: "string \<rightharpoonup> position"
  strat_total_trades :: int
  strat_winning_trades :: int
  strat_losing_trades :: int
  strat_total_pnl :: real
  strat_max_drawdown :: real
  strat_peak_balance :: real
  risk_manager :: risk_manager

text \<open>\<^verbatim>\<open>RiskManager.update_position_count\<close> and \<^verbatim>\<open>RiskManager.update_daily_pnl\<close>.\<close>

definition update_position_count :: "risk_manager \<Rightarrow> int \<Rightarrow> risk_manager" where
  "update_position_count rm change = rm\<lparr>open_positions := max 0 (open_positions rm + change)\<rparr>"

definition update_daily_pnl :: "risk_manager \<Rightarrow> real \<Rightarrow> risk_manager" where
  "update_daily_pnl rm v = rm\<lparr>rm_daily_pnl := rm_daily_pnl rm + v\<rparr>"

text \<open>
  \<^verbatim>\<open>BaseStrategy.remove_position\<close>. Its drawdown quotient is guarded
  (\<^verbatim>\<open>... if self.peak_balance > 0 else 0\<close>), so it never raises.
\<close>

definition remove_position ::
  "base_strategy \<Rightarrow> string \<Rightarrow> real \<Rightarrow> real option \<times> base_strategy" where
  "remove_position st symb exit_p =
     (case strat_positions st symb of
        None \<Rightarrow> (None, st)
      | Some p \<Rightarrow>
          let pnl_v = position_pnl p exit_p;
              st1 = st\<lparr>strat_total_trades := strat_total_trades st + 1,
                       strat_total_pnl := strat_total_pnl st + pnl_v\<rparr>;
              st2 = (if pnl_v > 0
                     then st1\<lparr>strat_winning_trades := strat_winning_trades st1 + 1\<rparr>
                     else st1\<lparr>strat_losing_trades := strat_losing_trades st1 + 1\<rparr>);
              st3 = (if strat_total_pnl st2 > strat_peak_balance st2
                     then st2\<lparr>strat_peak_balance := strat_total_pnl st2\<rparr> else st2);
              current_drawdown =
                (if strat_peak_balance st3 > 0
                 then (strat_peak_balance st3 - strat_total_pnl st3) / strat_peak_balance st3
                 else 0);
              st4 = st3\<lparr>strat_max_drawdown := max (strat_max_drawdown st3) current_drawdown,
                        strat_positions := (strat_positions st3)(symb := None)\<rparr>
          in (Some pnl_v,
              st4\<lparr>risk_manager :=
                    update_daily_pnl (update_position_count (risk_manager st4) (- 1)) pnl_v\<rparr>))"

section \<open>Indicators and signal fusion (\<^verbatim>\<open>technical_indicators.py\<close>)\<close>

datatype signal_type = BUY | SELL | HOLD | STRONG_BUY | STRONG_SELL

text \<open>
  \<^verbatim>\<open>IndicatorResult\<close>. The type of \<^verbatim>\<open>value\<close> differs between indicators (a number, or a
  dictionary of numbers), and so does the number type of \<^verbatim>\<open>strength\<close>; both are parameters.
  The \<^verbatim>\<open>metadata\<close> dictionary, which echoes the arguments and the intermediate series for
  display, is left out.
\<close>

record ('v, 'f) indicator_result =
  ir_value :: 'v
  signal :: signal_type
  strength :: 'f

subsection \<open>RSI\<close>

text \<open>
  \<^verbatim>\<open>validate_data\<close> on a list of numbers with no nulls (a \<^typ>\<open>real list\<close> has none, so the
  forward fill is never taken).
\<close>

definition validate_data :: "real list \<Rightarrow> int \<Rightarrow> error + real list" where
  "validate_data data min_periods =
     (if int (length data) < min_periods
      then Inl (InsufficientDataException min_periods (length data))
      else Inr data)"

text \<open>\<^verbatim>\<open>Series.diff()\<close>: NaN (\<open>None\<close>) in the first place, then the consecutive differences.\<close>

fun diff_from :: "real \<Rightarrow> real list \<Rightarrow> real option list" where
  "diff_from prev [] = []"
| "diff_from prev (x # xs) = Some (x - prev) # diff_from x xs"

fun diff :: "real list \<Rightarrow> real option list" where
  "diff [] = []"
| "diff (x # xs) = None # diff_from x xs"

text \<open>
  \<^verbatim>\<open>delta.where(delta > 0, 0)\<close> and \<^verbatim>\<open>-delta.where(delta < 0, 0)\<close>: an entry is kept where the
  condition holds and replaced by 0 elsewhere, also at the NaN, where the comparison is false.
\<close>

definition gains_of :: "real option list \<Rightarrow> real list" where
  "gains_of delta = map (\<lambda>d. case d of Some v \<Rightarrow> (if v > 0 then v else 0) | None \<Rightarrow> 0) delta"

definition losses_of :: "real option list \<Rightarrow> real list" where
  "losses_of delta = map (\<lambda>d. - (case d of Some v \<Rightarrow> (if v < 0 then v else 0) | None \<Rightarrow> 0)) delta"

text \<open>
  \<^verbatim>\<open>Series.ewm(span=period).mean()\<close> with the default \<^verbatim>\<open>adjust=True\<close>, on a series without
  NaN: with \<open>\<alpha> = 2 / (span + 1)\<close>, entry \<open>t\<close> is
  \<open>(x\<^sub>t + (1 - \<alpha>) x\<^sub>t\<^sub>-\<^sub>1 + \<dots> + (1 - \<alpha>)\<^sup>t x\<^sub>0) / (1 + (1 - \<alpha>) + \<dots> + (1 - \<alpha>)\<^sup>t)\<close>.
  The running numerator and denominator are the arguments of \<open>ewm_from\<close>. pandas raises
  \<^verbatim>\<open>ValueError\<close> for a span below 1.
\<close>

fun ewm_from :: "real \<Rightarrow> real \<Rightarrow> real \<Rightarrow> real list \<Rightarrow> real list" where
  "ewm_from a num den [] = []"
| "ewm_from a num den (x # xs) =
     (let num' = x + (1 - a) * num; den' = 1 + (1 - a) * den
      in (num' / den') # ewm_from a num' den' xs)"

definition ewm_mean :: "int \<Rightarrow> real list \<Rightarrow> error + real list" where
  "ewm_mean span_arg xs =
     (if span_arg < 1 then Inl ValueError
      else Inr (ewm_from (2 / (of_int span_arg + 1)) 0 0 xs))"

text \<open>The signal and strength that \<^verbatim>\<open>rsi\<close> derives from the last RSI value.\<close>

definition rsi_reading :: "npfloat \<Rightarrow> real \<Rightarrow> real \<Rightarrow> (npfloat, npfloat) indicator_result" where
  "rsi_reading current_rsi overbought oversold =
     (if np_le (Fin overbought) current_rsi then
        \<lparr>ir_value = current_rsi, signal = SELL,
         strength = py_min (np_div (np_sub current_rsi (Fin overbought))
                                   (Fin (100 - overbought))) (Fin 1)\<rparr>
      else if np_le current_rsi (Fin oversold) then
        \<lparr>ir_value = current_rsi, signal = BUY,
         strength = py_min (np_div (np_sub (Fin oversold) current_rsi) (Fin oversold)) (Fin 1)\<rparr>
      else
        let distance_to_extreme =
              py_min (np_abs (np_sub current_rsi (Fin overbought)))
                     (np_abs (np_sub current_rsi (Fin oversold)))
        in \<lparr>ir_value = current_rsi, signal = HOLD,
             strength = np_sub (Fin 1) (np_div distance_to_extreme (Fin 50))\<rparr>)"

text \<open>The series \<^verbatim>\<open>rsi = 100 - (100 / (1 + rs))\<close> with \<^verbatim>\<open>rs = avg_gains / avg_losses\<close>.\<close>

definition rsi_series :: "real list \<Rightarrow> real list \<Rightarrow> npfloat list" where
  "rsi_series avg_gains avg_losses =
     map (\<lambda>(g, l). np_sub (Fin 100) (np_div (Fin 100) (np_add (Fin 1) (np_div (Fin g) (Fin l)))))
         (zip avg_gains avg_losses)"

definition rsi ::
  "real list \<Rightarrow> int \<Rightarrow> real \<Rightarrow> real \<Rightarrow> error + (npfloat, npfloat) indicator_result" where
  "rsi prices period overbought oversold =
     (case validate_data prices (period + 1) of
        Inl e \<Rightarrow> Inl e
      | Inr ps \<Rightarrow>
          let delta = diff ps; gains = gains_of delta; losses = losses_of delta in
          (case ewm_mean period gains of
             Inl e \<Rightarrow> Inl e
           | Inr avg_gains \<Rightarrow>
               (case ewm_mean period losses of
                  Inl e \<Rightarrow> Inl e
                | Inr avg_losses \<Rightarrow>
                    let series = rsi_series avg_gains avg_losses in
                    if series = [] then Inl IndexError
                    else Inr (rsi_reading (last series) overbought oversold))))"

subsection \<open>Signal fusion\<close>

record combined_scores =
  buy_score :: real
  sell_score :: real
  hold_score :: real

text \<open>One turn of the scoring loop of \<^verbatim>\<open>combine_signals\<close>.\<close>

definition score_step ::
  "combined_scores \<Rightarrow> ('v, real) indicator_result \<times> real \<Rightarrow> combined_scores" where
  "score_step sc iw =
     (let weighted_strength = strength (fst iw) * snd iw in
      if signal (fst iw) \<in> {BUY, STRONG_BUY}
        then sc\<lparr>buy_score := buy_score sc + weighted_strength\<rparr>
      else if signal (fst iw) \<in> {SELL, STRONG_SELL}
        then sc\<lparr>sell_score := sell_score sc + weighted_strength\<rparr>
      else sc\<lparr>hold_score := hold_score sc + weighted_strength\<rparr>)"

text \<open>
  \<^verbatim>\<open>TechnicalIndicators.combine_signals\<close>. Normalising the weights divides by their sum and
  raises \<^verbatim>\<open>ZeroDivisionError\<close> when the sum is zero.
\<close>

definition combine_signals ::
  "('v, real) indicator_result list \<Rightarrow> real list option
     \<Rightarrow> error + (combined_scores, real) indicator_result" where
  "combine_signals indicators weights_arg =
     (if indicators = [] then Inl InvalidIndicatorException
      else
        let weights = (case weights_arg of None \<Rightarrow> replicate (length indicators) 1
                                         | Some ws \<Rightarrow> ws) in
        if length weights \<noteq> length indicators then Inl InvalidIndicatorException
        else
          let total_weight = sum_list weights in
          if total_weight = 0 then Inl ZeroDivisionError
          else
            let weights' = map (\<lambda>w. w / total_weight) weights;
                sc = foldl score_step \<lparr>buy_score = 0, sell_score = 0, hold_score = 0\<rparr>
                           (zip indicators weights');
                max_score = max (buy_score sc) (max (sell_score sc) (hold_score sc));
                final_signal =
                  (if max_score = buy_score sc \<and> buy_score sc > 6 / 10
                     then (if buy_score sc > 8 / 10 then STRONG_BUY else BUY)
                   else if max_score = sell_score sc \<and> sell_score sc > 6 / 10
                     then (if sell_score sc > 8 / 10 then STRONG_SELL else SELL)
                   else HOLD)
            in Inr \<lparr>ir_value = sc, signal = final_signal, strength = max_score\<rparr>)"

section \<open>Rate limiter (\<^verbatim>\<open>rate_limiter.py\<close>)\<close>

text \<open>
  A window is a \<^verbatim>\<open>Dict[int, int]\<close> from a truncated time to the number of requests recorded
  in it: an association list with distinct keys, in insertion order.
\<close>

type_synonym window = "(int \<times> int) list"

definition window_get :: "window \<Rightarrow> int \<Rightarrow> int" where
  "window_get w k = (case map_of w k of Some c \<Rightarrow> c | None \<Rightarrow> 0)"

fun window_set :: "window \<Rightarrow> int \<Rightarrow> int \<Rightarrow> window" where
  "window_set [] k v = [(k, v)]"
| "window_set ((k', v') # w) k v =
     (if k' = k then (k, v) # w else (k', v') # window_set w k v)"

definition window_total :: "window \<Rightarrow> int" where
  "window_total w = sum_list (map snd w)"

text \<open>Deleting every key below a bound, as each loop of \<^verbatim>\<open>_cleanup_windows\<close> does.\<close>

definition window_prune :: "window \<Rightarrow> int \<Rightarrow> window" where
  "window_prune w bound = filter (\<lambda>kc. \<not> fst kc < bound) w"

text \<open>
  The limiter's caps and windows. The burst fields of \<^verbatim>\<open>__init__\<close> are never read by the
  methods below and are left out; the lock is discussed with \<open>acquire_step\<close>.
\<close>

record rate_limiter =
  requests_per_second :: real
  requests_per_minute :: real
  requests_per_hour :: real
  second_window :: window
  minute_window :: window
  hour_window :: window

text \<open>
  The truncations of a clock reading \<^verbatim>\<open>t = time.time()\<close>: \<^verbatim>\<open>int(t)\<close> rounds towards zero,
  \<^verbatim>\<open>int(t // 60)\<close> and \<^verbatim>\<open>int(t // 3600)\<close> round down.
\<close>

definition current_second :: "real \<Rightarrow> int" where
  "current_second t = (if t \<ge> 0 then \<lfloor>t\<rfloor> else \<lceil>t\<rceil>)"

definition current_minute :: "real \<Rightarrow> int" where
  "current_minute t = \<lfloor>t / 60\<rfloor>"

definition current_hour :: "real \<Rightarrow> int" where
  "current_hour t = \<lfloor>t / 3600\<rfloor>"

definition cleanup_windows :: "rate_limiter \<Rightarrow> int \<Rightarrow> int \<Rightarrow> int \<Rightarrow> rate_limiter" where
  "cleanup_windows rl cs cm ch =
     rl\<lparr>second_window := window_prune (second_window rl) (cs - 1),
        minute_window := window_prune (minute_window rl) (cm - 2),
        hour_window := window_prune (hour_window rl) (ch - 2)\<rparr>"

text \<open>
  \<^verbatim>\<open>RateLimiter.can_make_request\<close> at clock reading \<open>t\<close>: the answer and the limiter after
  the clean-up. The whole body runs under the lock.
\<close>

definition can_make_request :: "rate_limiter \<Rightarrow> real \<Rightarrow> bool \<times> rate_limiter" where
  "can_make_request rl t =
     (let rl' = cleanup_windows rl (current_second t) (current_minute t) (current_hour t);
          second_count = window_get (second_window rl') (current_second t);
          minute_count = window_total (minute_window rl');
          hour_count = window_total (hour_window rl')
      in (if of_int second_count \<ge> requests_per_second rl' then False
          else if of_int minute_count \<ge> requests_per_minute rl' then False
          else if of_int hour_count \<ge> requests_per_hour rl' then False
          else True,
          rl'))"

text \<open>\<^verbatim>\<open>RateLimiter._record_request\<close> at clock reading \<open>t\<close>. It does not take the lock.\<close>

definition record_request :: "rate_limiter \<Rightarrow> real \<Rightarrow> rate_limiter" where
  "record_request rl t =
     rl\<lparr>second_window :=
          window_set (second_window rl) (current_second t)
            (window_get (second_window rl) (current_second t) + 1),
        minute_window :=
          window_set (minute_window rl) (current_minute t)
            (window_get (minute_window rl) (current_minute t) + 1),
        hour_window :=
          window_set (hour_window rl) (current_hour t)
            (window_get (hour_window rl) (current_hour t) + 1)\<rparr>"

text \<open>
  The second half of \<^verbatim>\<open>wait_if_needed\<close>, after its call of \<^verbatim>\<open>can_make_request\<close> has said
  no: the waiting times of the windows that are full at clock reading \<open>t\<close>
  (\<^verbatim>\<open>t % m\<close> is \<open>t - m * \<lfloor>t / m\<rfloor>\<close>).
\<close>

definition wait_times :: "rate_limiter \<Rightarrow> real \<Rightarrow> real list" where
  "wait_times rl t =
     (if of_int (window_get (second_window rl) (current_second t)) \<ge> requests_per_second rl
        then [1 - (t - of_int \<lfloor>t\<rfloor>)] else [])
     @ (if of_int (window_total (minute_window rl)) \<ge> requests_per_minute rl
        then [60 - (t - 60 * of_int \<lfloor>t / 60\<rfloor>)] else [])
     @ (if of_int (window_total (hour_window rl)) \<ge> requests_per_hour rl
        then [3600 - (t - 3600 * of_int \<lfloor>t / 3600\<rfloor>)] else [])"

text \<open>
  \<^verbatim>\<open>RateLimiter.acquire\<close>, one caller, cut where the caller reads the shared windows or the
  clock. Between two such points another thread may run: only the body of
  \<^verbatim>\<open>can_make_request\<close> holds the lock, so the check and the recording that follows it are
  separate steps. A control point names what the caller does next:
  \<^item> \<open>AcqStart\<close>: read \<^verbatim>\<open>start_time\<close>;
  \<^item> \<open>AcqCheck start\<close>: the \<^verbatim>\<open>can_make_request()\<close> at the head of the loop;
  \<^item> \<open>AcqRecord\<close>: \<^verbatim>\<open>_record_request()\<close>, then \<^verbatim>\<open>return True\<close>;
  \<^item> \<open>AcqWaitCheck start\<close>: the \<^verbatim>\<open>can_make_request()\<close> inside \<^verbatim>\<open>wait_if_needed()\<close>;
  \<^item> \<open>AcqWaitTimes start\<close>: the rest of \<^verbatim>\<open>wait_if_needed()\<close>;
  \<^item> \<open>AcqTimeout start wait\<close>: the timeout test;
  \<^item> \<open>AcqSleep start sleep_time\<close>: waking from \<^verbatim>\<open>time.sleep(sleep_time)\<close>;
  \<^item> \<open>AcqReturned\<close>, \<open>AcqRaised\<close>: the call is over.
\<close>

datatype acquire_pc =
    AcqStart
  | AcqCheck real
  | AcqRecord
  | AcqWaitCheck real
  | AcqWaitTimes real
  | AcqTimeout real real
  | AcqSleep real real
  | AcqReturned
  | AcqRaised

text \<open>One step of a caller with the given timeout, at clock reading \<open>t\<close>.\<close>

fun acquire_step ::
  "real option \<Rightarrow> real \<Rightarrow> acquire_pc \<Rightarrow> rate_limiter \<Rightarrow> acquire_pc \<times> rate_limiter" where
  "acquire_step tmo t AcqStart rl = (AcqCheck t, rl)"
| "acquire_step tmo t (AcqCheck start) rl =
     (let (ok, rl') = can_make_request rl t
      in (if ok then AcqRecord else AcqWaitCheck start, rl'))"
| "acquire_step tmo t AcqRecord rl = (AcqReturned, record_request rl t)"
| "acquire_step tmo t (AcqWaitCheck start) rl =
     (let (ok, rl') = can_make_request rl t
      in (if ok then AcqRecord else AcqWaitTimes start, rl'))"
| "acquire_step tmo t (AcqWaitTimes start) rl =
     (case wait_times rl t of
        [] \<Rightarrow> (AcqRecord, rl)
      | w # ws \<Rightarrow> (AcqTimeout start (foldl min w ws), rl))"
| "acquire_step tmo t (AcqTimeout start wait) rl =
     (case tmo of
        None \<Rightarrow> (AcqSleep start (min wait (1 / 10)), rl)
      | Some limit \<Rightarrow>
          (if t - start \<ge> limit then AcqRaised else AcqSleep start (min wait (1 / 10)), rl))"
| "acquire_step tmo t (AcqSleep start sleep_time) rl = (AcqCheck start, rl)"
| "acquire_step tmo t AcqReturned rl = (AcqReturned, rl)"
| "acquire_step tmo t AcqRaised rl = (AcqRaised, rl)"

text \<open>
  Several callers of one limiter. A caller is its timeout and its control point; a
  schedule names, step by step, the caller that runs and the clock reading it sees.
\<close>

record limiter_system =
  limiter :: rate_limiter
  callers :: "(real option \<times> acquire_pc) list"

definition system_step :: "limiter_system \<Rightarrow> nat \<times> real \<Rightarrow> limiter_system" where
  "system_step sys it =
     (if fst it < length (callers sys) then
        let c = callers sys ! fst it;
            (pc', rl') = acquire_step (fst c) (snd it) (snd c) (limiter sys)
        in \<lparr>limiter = rl', callers = (callers sys)[fst it := (fst c, pc')]\<rparr>
      else sys)"

definition run_schedule :: "limiter_system \<Rightarrow> (nat \<times> real) list \<Rightarrow> limiter_system" where
  "run_schedule sys sched = foldl system_step sys sched"

text \<open>\<^verbatim>\<open>RateLimiter.__init__\<close> with the given caps, and a system of \<open>n\<close> callers about to start.\<close>

definition limiter_init :: "real \<Rightarrow> real \<Rightarrow> real \<Rightarrow> rate_limiter" where
  "limiter_init rps rpm rph =
     \<lparr>requests_per_second = rps, requests_per_minute = rpm, requests_per_hour = rph,
      second_window = [], minute_window = [], hour_window = []\<rparr>"

definition system_init :: "rate_limiter \<Rightarrow> real option \<Rightarrow> nat \<Rightarrow> limiter_system" where
  "system_init rl tmo n = \<lparr>limiter = rl, callers = replicate n (tmo, AcqStart)\<rparr>"

section \<open>Reference formulas and sample data\<close>

text \<open>
  The Kelly fraction as the specification words it: \<open>f = (b p - q) / b\<close> with \<open>p\<close> the win
  rate and \<open>q = 1 - p\<close>, clamped to \<open>[0, 0.25]\<close>, as a function of \<open>p\<close> and of the ratio \<open>b\<close>
  of average win to average loss.
\<close>

definition kelly_fraction_spec :: "real \<Rightarrow> real \<Rightarrow> real" where
  "kelly_fraction_spec win_rate b =
     (let p = win_rate; q = 1 - p
      in max 0 (min ((b * p - q) / b) (25 / 100)))"

text \<open>The position of \<^verbatim>\<open>test_add_and_close_position\<close>: 0.1 BTC bought at 50000.\<close>

definition btc :: position where
  "btc = \<lparr>symbol = ''BTC-USD'', side = ''buy'', size_pos = 1 / 10, entry_price = 50000,
          current_price = 50000, stop_loss = None, take_profit = None,
          unrealized_pnl = 0, timestamp = Some 0, order_id = None\<rparr>"

text \<open>The same position sold short.\<close>

definition btc_short :: position where
  "btc_short = btc\<lparr>side := ''sell''\<rparr>"

text \<open>A position of size zero, which needs no funds.\<close>

definition btc_empty :: position where
  "btc_empty = btc\<lparr>size_pos := 0\<rparr>"

text \<open>
  A position whose exact notional, \<open>(1 + 2\<^sup>-\<^sup>5\<^sup>2) (1 - 2\<^sup>-\<^sup>5\<^sup>3) = 1 + 2\<^sup>-\<^sup>5\<^sup>3 - 2\<^sup>-\<^sup>1\<^sup>0\<^sup>5\<close>, is
  above 1 while the float product of its size and entry price, both doubles, is exactly 1.
\<close>

definition boundary_position :: position where
  "boundary_position =
     \<lparr>symbol = ''BTC-USD'', side = ''buy'', size_pos = 1 + 1 / 2 ^ 52,
      entry_price = 1 - 1 / 2 ^ 53, current_price = 1, stop_loss = None, take_profit = None,
      unrealized_pnl = 0, timestamp = Some 0, order_id = None\<rparr>"

text \<open>
  The readings of \<^verbatim>\<open>test_combine_signals\<close> (signal, strength and value of each), to be
  combined with the weights \<open>[1.0, 1.5, 1.0, 1.2]\<close>.
\<close>

definition test_readings :: "(real, real) indicator_result list" where
  "test_readings =
     [\<lparr>ir_value = 65, signal = BUY, strength = 8 / 10\<rparr>,
      \<lparr>ir_value = 75, signal = STRONG_BUY, strength = 9 / 10\<rparr>,
      \<lparr>ir_value = 50, signal = HOLD, strength = 5 / 10\<rparr>,
      \<lparr>ir_value = 60, signal = BUY, strength = 7 / 10\<rparr>]"

text \<open>A strategy holding the sample position, with clean counters.\<close>

definition strategy_with_btc :: base_strategy where
  "strategy_with_btc =
     \<lparr>strat_positions = [''BTC-USD'' \<mapsto> btc],
      strat_total_trades = 0, strat_winning_trades = 0, strat_losing_trades = 0,
      strat_total_pnl = 0, strat_max_drawdown = 0, strat_peak_balance = 0,
      risk_manager = \<lparr>rm_daily_pnl = 0, open_positions = 1, total_exposure = 0\<rparr>\<rparr>"

text \<open>
  Two callers of \<^verbatim>\<open>acquire()\<close> interleaved within second 100: each reads its start time,
  each asks \<^verbatim>\<open>can_make_request()\<close>, each records its request.
\<close>

definition race_schedule :: "(nat \<times> real) list" where
  "race_schedule =
     [(0, 1001 / 10), (1, 1002 / 10), (0, 1003 / 10), (1, 1004 / 10), (0, 1005 / 10),
      (1, 1006 / 10)]"

section \<open>Properties of rounding\<close>

lemma pow2_pos: "0 < pow2 k"
  by (simp add: pow2_def)

lemma pow2_le_one: "k \<le> 0 \<Longrightarrow> pow2 k \<le> 1"
  by (auto simp: pow2_def field_simps)

lemma pow2_ge_one: "0 \<le> k \<Longrightarrow> 1 \<le> pow2 k"
  by (simp add: pow2_def)

lemma bitlen_eqI:
  assumes "0 < w" "2 ^ (nat w - 1) \<le> n" "n < 2 ^ nat w"
  shows "bitlen n = w"
proof (rule antisym)
  show "bitlen n \<le> w" using assms by (simp add: bitlen_le_iff_power)
  show "w \<le> bitlen n" using assms by (simp add: bitlen_ge_iff_power)
qed

text \<open>\<open>binary_exponent\<close> finds the binade: the \<open>e\<close> with \<open>2\<^sup>e \<le> x < 2\<^sup>e\<^sup>+\<^sup>1\<close>.\<close>

lemma binary_exponent_eqI:
  assumes "pow2 e \<le> x" "x < pow2 (e + 1)"
  shows "binary_exponent x = e"
proof (cases "1 \<le> x")
  case True
  have e: "0 \<le> e"
  proof (rule ccontr)
    assume "\<not> 0 \<le> e"
    then have "pow2 (e + 1) \<le> 1" by (intro pow2_le_one) simp
    with assms(2) True show False by simp
  qed
  have lo: "2 ^ nat e \<le> \<lfloor>x\<rfloor>"
    using assms(1) e by (simp add: pow2_def le_floor_iff)
  have hi: "\<lfloor>x\<rfloor> < 2 ^ nat (e + 1)"
    using assms(2) e by (simp add: pow2_def floor_less_iff)
  have "bitlen \<lfloor>x\<rfloor> = e + 1"
    using e lo hi by (intro bitlen_eqI) (auto simp: nat_add_distrib)
  with True show ?thesis by (simp add: binary_exponent_def)
next
  case False
  have xpos: "0 < x" using assms(1) pow2_pos[of e] by linarith
  have e: "e < 0"
  proof (rule ccontr)
    assume "\<not> e < 0"
    then have "1 \<le> pow2 e" by (intro pow2_ge_one) simp
    with assms(1) False show False by simp
  qed
  define k where "k = nat (- e)"
  have k: "0 < k" "e = - int k" using e by (auto simp: k_def)
  have a1: "1 / 2 ^ k \<le> x" using assms(1) e by (simp add: pow2_def k_def)
  have a2: "x < 1 / 2 ^ (k - 1)"
  proof (cases "e + 1 = 0")
    case True
    then show ?thesis using False k by simp
  next
    case False
    with e have "e + 1 < 0" by simp
    moreover have "nat (- (e + 1)) = k - 1" using k by simp
    ultimately show ?thesis using assms(2) by (simp add: pow2_def)
  qed
  have y1: "1 / x \<le> 2 ^ k" using a1 xpos by (simp add: field_simps)
  have y2: "2 ^ (k - 1) < 1 / x" using a2 xpos by (simp add: field_simps)
  have "\<lceil>1 / x\<rceil> \<le> 2 ^ k" using y1 by (simp add: ceiling_le_iff)
  moreover have "2 ^ (k - 1) < \<lceil>1 / x\<rceil>" using y2 by (simp add: less_ceiling_iff)
  ultimately have "bitlen (\<lceil>1 / x\<rceil> - 1) = int k"
    using k by (intro bitlen_eqI) auto
  with False k show ?thesis by (simp add: binary_exponent_def)
qed

lemma round_nearest_eq:
  assumes "pow2 e \<le> \<bar>x\<bar>" "\<bar>x\<bar> < pow2 (e + 1)"
  shows "round_nearest x =
           of_int (round_half_even (x / pow2 (max e (- 1022) - 52)))
             * pow2 (max e (- 1022) - 52)"
proof -
  have "x \<noteq> 0" using assms(1) pow2_pos[of e] by auto
  moreover have "binary_exponent \<bar>x\<bar> = e" using assms by (rule binary_exponent_eqI)
  ultimately show ?thesis by (simp add: round_nearest_def Let_def)
qed

lemma round_nearest_zero: "round_nearest 0 = 0"
  by (simp add: round_nearest_def)

lemma round_nearest_5000: "round_nearest 5000 = 5000"
  using round_nearest_eq[of 12 5000] by (simp add: pow2_def round_half_even_def)

lemma round_nearest_2: "round_nearest 2 = 2"
  using round_nearest_eq[of 1 2] by (simp add: pow2_def round_half_even_def)

text \<open>
  A product just above 1 that rounds to 1, a quotient that underflows to zero and a
  quotient that overflows.
\<close>

lemma round_nearest_boundary: "round_nearest ((1 + 1 / 2 ^ 52) * (1 - 1 / 2 ^ 53)) = 1"
  using round_nearest_eq[of 0 "(1 + 1 / 2 ^ 52) * (1 - 1 / 2 ^ 53)"]
  by (simp add: pow2_def round_half_even_def)

lemma round_nearest_underflow: "round_nearest ((1 / 2 ^ 540) / 2 ^ 540) = 0"
  using round_nearest_eq[of "- 1080" "(1 / 2 ^ 540) / 2 ^ 540"]
  by (simp add: pow2_def round_half_even_def)

lemma round_nearest_overflow: "round_nearest (2 ^ 512 / (1 / 2 ^ 512)) = 2 ^ 1024"
  using round_nearest_eq[of 1024 "2 ^ 512 / (1 / 2 ^ 512)"]
  by (simp add: pow2_def round_half_even_def)

section \<open>Properties of risk and sizing\<close>

lemma lower_buy: "lower ''buy'' = ''buy''"
  by (simp add: lower_def lower_char_def)

lemma lower_sell: "lower ''sell'' \<noteq> ''buy''"
  by (simp add: lower_def lower_char_def)



text \<open>
  With the limits of the default settings (sizes between 10 and 1000) the same input is
  clamped up to 10 units, which the balance cannot pay for, and re-derived as
  \<open>10000 / 50000\<close>.
\<close>

lemma calculate_position_size_default_limits:
  "calculate_position_size
     \<lparr>max_risk_per_trade = 2, max_daily_loss = 5, max_positions = 5,
      min_position_size = 10, max_position_size = 1000\<rparr>
     10000 50000 48500 ''buy'' None
   = Inr \<lparr>base_size = 1 / 5, quote_size = 10000, risk_amount = 300, risk_percentage = 3,
          stop_loss_price = Some 48500, take_profit_price = None\<rparr>"
  by (simp add: calculate_position_size_def size_from_risk_def lower_buy or_default_def Let_def)

text \<open>
  Claim C8, as stated, fails: for a win rate of 0.6, an average win of 2 and an average loss
  of 1 the clamped Kelly fraction is 0.25, and \<^verbatim>\<open>calculate_kelly_criterion\<close> returns 25.
\<close>

theorem kelly_returns_fraction_counterexample:
  "(6 / 10 :: real) \<in> {0..1} \<and> (0::real) \<le> 2 \<and> (0::real) < 1
   \<and> calculate_kelly_criterion (6 / 10) 2 1 = Inr (Fin 25)
   \<and> kelly_fraction_spec (6 / 10) (2 / 1) = 1 / 4
   \<and> calculate_kelly_criterion (6 / 10) 2 1 \<noteq> Inr (Fin (kelly_fraction_spec (6 / 10) (2 / 1)))"
  by (simp add: calculate_kelly_criterion_def kelly_fraction_spec_def round_double_def
        round_nearest_2 pow2_def np_sub_def py_min_def py_max_def Let_def)

lemma np_sub_fin: "np_sub (Fin x) (Fin y) = Fin (x - y)"
  by (simp add: np_sub_def)

lemma py_min_fin: "py_min (Fin x) (Fin y) = Fin (min x y)"
  by (simp add: py_min_def min_def)

lemma py_max_fin: "py_max (Fin x) (Fin y) = Fin (max x y)"
  by (simp add: py_max_def max_def)

lemma clamp_quarter:
  "0 \<le> max 0 (min x (25 / 100 :: real)) \<and> max 0 (min x (25 / 100 :: real)) \<le> 25 / 100"
  by auto

text \<open>
  Claim C8, amended. For a win rate in \<open>[0, 1]\<close>, a positive average win and a positive
  average loss whose float quotient \<open>b\<close> is finite and not zero (it neither overflows nor
  underflows to zero), \<^verbatim>\<open>calculate_kelly_criterion\<close> returns a percentage: 100 times the
  Kelly fraction \<open>(b p - q) / b\<close> clamped to \<open>[0, 0.25]\<close>.
\<close>

theorem kelly_returns_percentage:
  assumes "0 \<le> win_rate" "win_rate \<le> 1" "0 < avg_win" "0 < avg_loss"
    and "round_double (avg_win / avg_loss) = Fin b" "b \<noteq> 0"
  shows "calculate_kelly_criterion win_rate avg_win avg_loss
           = Inr (Fin (100 * kelly_fraction_spec win_rate b))
         \<and> 0 \<le> kelly_fraction_spec win_rate b
         \<and> kelly_fraction_spec win_rate b \<le> 25 / 100"
proof -
  have "calculate_kelly_criterion win_rate avg_win avg_loss
           = Inr (Fin (100 * kelly_fraction_spec win_rate b))"
    using assms
    by (simp add: calculate_kelly_criterion_def kelly_fraction_spec_def np_sub_fin
          py_min_fin py_max_fin Let_def)
  moreover have "0 \<le> kelly_fraction_spec win_rate b
         \<and> kelly_fraction_spec win_rate b \<le> 25 / 100"
    unfolding kelly_fraction_spec_def Let_def by (rule clamp_quarter)
  ultimately show ?thesis by simp
qed

theorem kelly_returns_percentage_witness:
  "(0::real) \<le> 6 / 10 \<and> (6 / 10 :: real) \<le> 1 \<and> (0::real) < 2 \<and> (0::real) < 1
   \<and> round_double (2 / 1) = Fin 2 \<and> (2::real) \<noteq> 0
   \<and> calculate_kelly_criterion (6 / 10) 2 1
       = Inr (Fin (100 * kelly_fraction_spec (6 / 10) 2))
   \<and> kelly_fraction_spec (6 / 10) 2 = 25 / 100"
proof -
  have b: "round_double (2 / 1) = Fin 2"
    by (simp add: round_double_def round_nearest_2 pow2_def Let_def)
  show ?thesis
    using b kelly_returns_percentage[of "6 / 10" 2 1 2]
    by (simp add: kelly_fraction_spec_def Let_def)
qed

text \<open>
  Outside the amended claim. With an average win of zero the ratio \<open>b\<close> is zero and the
  quotient \<open>(b p - q) / b\<close> raises; so it does when a positive average win is so small
  against the average loss that \<open>b\<close> underflows to zero. When \<open>b\<close> overflows, the result is 0.
\<close>

lemma kelly_zero_avg_win:
  "0 < avg_loss \<Longrightarrow> calculate_kelly_criterion win_rate 0 avg_loss = Inl ZeroDivisionError"
  by (simp add: calculate_kelly_criterion_def round_double_def round_nearest_zero pow2_def)

lemma kelly_underflow:
  "calculate_kelly_criterion (1 / 2) (1 / 2 ^ 540) (2 ^ 540) = Inl ZeroDivisionError"
proof -
  have b: "round_double ((1 / 2 ^ 540) / 2 ^ 540) = Fin 0"
    unfolding round_double_def round_nearest_underflow Let_def by (simp add: pow2_def)
  show ?thesis
    unfolding calculate_kelly_criterion_def Let_def b by simp
qed

lemma kelly_overflow:
  "calculate_kelly_criterion (1 / 2) (2 ^ 512) (1 / 2 ^ 512) = Inr (Fin 0)"
proof -
  have b: "round_double (2 ^ 512 / (1 / 2 ^ 512)) = PInf"
    unfolding round_double_def round_nearest_overflow Let_def by (simp add: pow2_def)
  show ?thesis
    unfolding calculate_kelly_criterion_def Let_def b
    by (simp add: np_sub_def py_min_def py_max_def)
qed

text \<open>
  Claim C9. \<^verbatim>\<open>update_trailing_stop\<close> only tightens: for the side \<^verbatim>\<open>"buy"\<close> (in any letter
  case) the returned stop is at least the current stop, for every other side it is at most
  the current stop, whatever the prices and the trailing percentage.
\<close>

theorem trailing_stop_only_tightens:
  "(lower sd = ''buy'' \<longrightarrow> current_stop \<le> update_trailing_stop cp e current_stop sd tp)
   \<and> (lower sd \<noteq> ''buy'' \<longrightarrow> update_trailing_stop cp e current_stop sd tp \<le> current_stop)"
  by (simp add: update_trailing_stop_def Let_def)

theorem trailing_stop_only_tightens_witness:
  "lower ''buy'' = ''buy'' \<and> update_trailing_stop 110 100 98 ''buy'' 2 = 1078 / 10
   \<and> (98::real) \<le> update_trailing_stop 110 100 98 ''buy'' 2
   \<and> lower ''sell'' \<noteq> ''buy'' \<and> update_trailing_stop 90 100 102 ''sell'' 2 = 918 / 10
   \<and> update_trailing_stop 90 100 102 ''sell'' 2 \<le> (102::real)"
  using trailing_stop_only_tightens[of "''buy''" 98 110 100 2]
        trailing_stop_only_tightens[of "''sell''" 102 90 100 2]
  by (simp add: lower_buy lower_sell update_trailing_stop_def Let_def)

section \<open>Properties of the portfolio ledger\<close>

text \<open>
  Claim C4. \<^verbatim>\<open>add_position\<close> raises \<^verbatim>\<open>InsufficientFundsException\<close> exactly when
  \<open>size \<cdot> entry_price\<close>, the product as the code computes it (the float product, rounded
  to the nearest double), exceeds the available balance. Whenever it raises, the ledger is
  left as it was. Otherwise it returns \<^verbatim>\<open>True\<close>, that notional has moved from the available
  to the reserved balance, the total balance is unchanged, and the position table differs
  from the old one only in holding the position under its symbol.
\<close>

theorem add_position_spec:
  "((\<exists>a b. fst (add_position pm p now) = Inl (InsufficientFundsException a b))
      \<longleftrightarrow> round_nearest (size_pos p * entry_price p) > available_balance (account_balance pm))
   \<and> (isl (fst (add_position pm p now)) \<longrightarrow> snd (add_position pm p now) = pm)
   \<and> (\<not> isl (fst (add_position pm p now)) \<longrightarrow>
        (let pm' = snd (add_position pm p now);
             notional = round_nearest (size_pos p * entry_price p)
         in fst (add_position pm p now) = Inr True
          \<and> available_balance (account_balance pm')
              = available_balance (account_balance pm) - notional
          \<and> reserved_balance (account_balance pm')
              = reserved_balance (account_balance pm) + notional
          \<and> total_balance (account_balance pm') = total_balance (account_balance pm)
          \<and> positions pm' = (positions pm)(symbol p \<mapsto> p)))"
  by (simp add: add_position_def Let_def)

text \<open>
  The sample position costs 5000: a ledger of 10000 takes it, a ledger of 1000 refuses it
  and stays as it was.
\<close>

theorem add_position_spec_witness:
  "fst (add_position (portfolio_init 10000 ''USD'' 0) btc 1) = Inr True
   \<and> available_balance (account_balance (snd (add_position (portfolio_init 10000 ''USD'' 0) btc 1)))
       = 5000
   \<and> reserved_balance (account_balance (snd (add_position (portfolio_init 10000 ''USD'' 0) btc 1)))
       = 5000
   \<and> positions (snd (add_position (portfolio_init 10000 ''USD'' 0) btc 1)) ''BTC-USD'' = Some btc
   \<and> fst (add_position (portfolio_init 1000 ''USD'' 0) btc 1)
       = Inl (InsufficientFundsException 5000 1000)
   \<and> snd (add_position (portfolio_init 1000 ''USD'' 0) btc 1) = portfolio_init 1000 ''USD'' 0"
  using add_position_spec[of "portfolio_init 10000 ''USD'' 0" btc 1]
        add_position_spec[of "portfolio_init 1000 ''USD'' 0" btc 1]
  by (simp add: add_position_def portfolio_init_def btc_def round_nearest_5000 Let_def)

text \<open>
  The funds check sees the rounded product. The boundary position has an exact notional
  above 1, yet a ledger of exactly 1 takes it and reserves 1: the float product is 1.
\<close>

lemma add_position_rounds_product:
  "size_pos boundary_position * entry_price boundary_position > 1
   \<and> fst (add_position (portfolio_init 1 ''USD'' 0) boundary_position 1) = Inr True
   \<and> reserved_balance
        (account_balance (snd (add_position (portfolio_init 1 ''USD'' 0) boundary_position 1)))
       = 1"
proof -
  have sz: "size_pos boundary_position = 1 + 1 / 2 ^ 52"
    and en: "entry_price boundary_position = 1 - 1 / 2 ^ 53"
    by (simp_all add: boundary_position_def)
  have r: "round_nearest (size_pos boundary_position * entry_price boundary_position) = 1"
    unfolding sz en by (rule round_nearest_boundary)
  have "size_pos boundary_position * entry_price boundary_position > 1"
    by (simp add: boundary_position_def)
  moreover have "fst (add_position (portfolio_init 1 ''USD'' 0) boundary_position 1) = Inr True"
    unfolding add_position_def Let_def r by (simp add: portfolio_init_def)
  moreover have "reserved_balance
        (account_balance (snd (add_position (portfolio_init 1 ''USD'' 0) boundary_position 1)))
       = 1"
    unfolding add_position_def Let_def r by (simp add: portfolio_init_def)
  ultimately show ?thesis by simp
qed

text \<open>
  Closing an open position returns the long formula for the side \<^verbatim>\<open>"buy"\<close> and the short
  formula otherwise, provided the peak balance after the close is not zero.
\<close>

lemma close_position_pnl:
  assumes "positions pm symb = Some p"
    and "max (peak_balance pm) (total_balance (account_balance pm) + position_pnl p x) \<noteq> 0"
  shows "fst (close_position pm symb x why strat now)
           = Inr (Some (if side p = ''buy'' then (x - entry_price p) * size_pos p
                        else (entry_price p - x) * size_pos p))"
  using assms
  by (auto simp: close_position_def position_pnl_def Let_def max_def split: if_splits)

text \<open>The figures of the specification: 200 for the long position, -200 for the short one.\<close>

lemma close_position_examples:
  "fst (close_position (snd (add_position (portfolio_init 10000 ''USD'' 0) btc 1))
          ''BTC-USD'' 52000 ''profit'' ''test_strategy'' 2) = Inr (Some 200)
   \<and> fst (close_position (snd (add_position (portfolio_init 10000 ''USD'' 0) btc_short 1))
          ''BTC-USD'' 52000 ''loss'' ''test_strategy'' 2) = Inr (Some (- 200))"
  by (simp add: close_position_def add_position_def portfolio_init_def btc_def btc_short_def
        position_pnl_def round_nearest_5000 Let_def)

text \<open>
  Claim C5 at a ledger opened with a balance of zero. The position of size zero is accepted
  (it needs no funds); closing it computes a profit of zero, so total and peak balance stay
  zero and the drawdown quotient raises \<^verbatim>\<open>ZeroDivisionError\<close>: no profit is returned.
\<close>

theorem close_position_zero_peak_raises:
  "fst (add_position (portfolio_init 0 ''USD'' 0) btc_empty 1) = Inr True
   \<and> positions (snd (add_position (portfolio_init 0 ''USD'' 0) btc_empty 1)) ''BTC-USD''
       = Some btc_empty
   \<and> fst (close_position (snd (add_position (portfolio_init 0 ''USD'' 0) btc_empty 1))
            ''BTC-USD'' 52000 ''manual'' ''unknown'' 2) = Inl ZeroDivisionError"
  by (simp add: close_position_def add_position_def portfolio_init_def btc_empty_def btc_def
        position_pnl_def round_nearest_zero Let_def)

lemma close_position_max_drawdown:
  "max_drawdown pm \<le> max_drawdown (snd (close_position pm symb x why strat now))"
  by (simp add: close_position_def Let_def split: option.splits)

lemma update_prices_max_drawdown:
  "max_drawdown (foldl update_one_price pm ps) = max_drawdown pm"
  by (induction ps arbitrary: pm) (simp_all add: update_one_price_def split: option.splits)

lemma ledger_step_max_drawdown: "max_drawdown pm \<le> max_drawdown (ledger_step pm c)"
  by (cases c)
     (simp_all add: close_position_max_drawdown add_position_def Let_def
        update_position_prices_def update_prices_max_drawdown reset_daily_metrics_def)

lemma ledger_trace_max_drawdown:
  "q \<in> set (ledger_trace pm cs) \<Longrightarrow> max_drawdown pm \<le> max_drawdown q"
proof (induction cs arbitrary: pm)
  case Nil
  then show ?case by simp
next
  case (Cons c cs)
  from Cons.prems have "q = pm \<or> q \<in> set (ledger_trace (ledger_step pm c) cs)" by simp
  then show ?case
  proof
    assume "q = pm"
    then show ?thesis by simp
  next
    assume "q \<in> set (ledger_trace (ledger_step pm c) cs)"
    then have "max_drawdown (ledger_step pm c) \<le> max_drawdown q" by (rule Cons.IH)
    with ledger_step_max_drawdown[of pm c] show ?thesis by linarith
  qed
qed

lemma ledger_trace_sorted: "sorted (map max_drawdown (ledger_trace pm cs))"
proof (induction cs arbitrary: pm)
  case Nil
  show ?case by simp
next
  case (Cons c cs)
  have "\<forall>q\<in>set (ledger_trace (ledger_step pm c) cs). max_drawdown pm \<le> max_drawdown q"
    using ledger_trace_max_drawdown ledger_step_max_drawdown order_trans by blast
  with Cons.IH show ?case by simp
qed

text \<open>
  Claim C7. Along every sequence of ledger calls (closes among them, whether they return,
  find no position or raise) the tracked \<^verbatim>\<open>max_drawdown\<close> never decreases: the values it
  takes, in order, are sorted. A close that returns a profit replaces it by the maximum of
  its previous value and \<open>(peak - total) / peak\<close> at the balances after the close.
\<close>

theorem max_drawdown_monotone:
  "sorted (map max_drawdown (ledger_trace pm calls))
   \<and> (close_position pm symb x why strat now = (Inr (Some v), pm') \<longrightarrow>
        max_drawdown pm' =
          max (max_drawdown pm)
              ((peak_balance pm' - total_balance (account_balance pm')) / peak_balance pm'))"
  by (auto simp: ledger_trace_sorted close_position_def Let_def split: option.splits if_splits)

text \<open>
  The sample position closed at 48000 loses 200 of 10000: no new peak, a drawdown of 2
  percent.
\<close>

theorem max_drawdown_monotone_witness:
  "close_position (snd (add_position (portfolio_init 10000 ''USD'' 0) btc 1))
       ''BTC-USD'' 48000 ''stop'' ''swing'' 2
     = (Inr (Some (- 200)),
        snd (close_position (snd (add_position (portfolio_init 10000 ''USD'' 0) btc 1))
               ''BTC-USD'' 48000 ''stop'' ''swing'' 2))
   \<and> max_drawdown (snd (close_position (snd (add_position (portfolio_init 10000 ''USD'' 0) btc 1))
                           ''BTC-USD'' 48000 ''stop'' ''swing'' 2)) = 1 / 50"
  using max_drawdown_monotone[where pm = "snd (add_position (portfolio_init 10000 ''USD'' 0) btc 1)"
          and calls = "[]" and symb = "''BTC-USD''" and x = 48000 and why = "''stop''"
          and strat = "''swing''" and now = 2 and v = "- 200"
          and pm' = "snd (close_position (snd (add_position (portfolio_init 10000 ''USD'' 0) btc 1))
                           ''BTC-USD'' 48000 ''stop'' ''swing'' 2)"]
  by (simp add: close_position_def add_position_def portfolio_init_def btc_def position_pnl_def
        round_nearest_5000 Let_def)

lemma close_position_counters:
  "total_trades pm = winning_trades pm + losing_trades pm \<Longrightarrow>
   total_trades (snd (close_position pm symb x why strat now))
     = winning_trades (snd (close_position pm symb x why strat now))
       + losing_trades (snd (close_position pm symb x why strat now))"
  by (simp add: close_position_def Let_def split: option.splits)

lemma update_prices_counters:
  "total_trades (foldl update_one_price pm ps) = total_trades pm
   \<and> winning_trades (foldl update_one_price pm ps) = winning_trades pm
   \<and> losing_trades (foldl update_one_price pm ps) = losing_trades pm"
  by (induction ps arbitrary: pm) (simp_all add: update_one_price_def split: option.splits)

lemma ledger_step_counters:
  "total_trades pm = winning_trades pm + losing_trades pm \<Longrightarrow>
   total_trades (ledger_step pm c)
     = winning_trades (ledger_step pm c) + losing_trades (ledger_step pm c)"
  by (cases c)
     (simp_all add: close_position_counters add_position_def Let_def update_position_prices_def
        update_prices_counters reset_daily_metrics_def)

lemma ledger_trace_counters:
  "total_trades pm = winning_trades pm + losing_trades pm \<Longrightarrow>
   list_all (\<lambda>q. total_trades q = winning_trades q + losing_trades q) (ledger_trace pm cs)"
  by (induction cs arbitrary: pm) (simp_all add: ledger_step_counters)

text \<open>
  Claim C10. A \<^verbatim>\<open>close_position\<close> that returns a profit \<open>v\<close> has added one to
  \<^verbatim>\<open>total_trades\<close> and one to exactly one of the two other counters: \<^verbatim>\<open>winning_trades\<close> when
  \<open>v > 0\<close>, \<^verbatim>\<open>losing_trades\<close> otherwise, so a break-even close counts as a loss. Every ledger
  that a sequence of calls reaches from a new portfolio has
  \<open>total_trades = winning_trades + losing_trades\<close>. \<^verbatim>\<open>BaseStrategy.remove_position\<close> counts
  the same way and keeps the same equation.
\<close>

theorem trade_counters_consistent:
  "(close_position pm symb x why strat now = (Inr (Some v), pm') \<longrightarrow>
      total_trades pm' = total_trades pm + 1
      \<and> (if v > 0
          then winning_trades pm' = winning_trades pm + 1 \<and> losing_trades pm' = losing_trades pm
          else winning_trades pm' = winning_trades pm \<and> losing_trades pm' = losing_trades pm + 1))
   \<and> list_all (\<lambda>q. total_trades q = winning_trades q + losing_trades q)
        (ledger_trace (portfolio_init b cur opened) calls)
   \<and> (remove_position st symb x = (Some v, st') \<longrightarrow>
      strat_total_trades st' = strat_total_trades st + 1
      \<and> (if v > 0
          then strat_winning_trades st' = strat_winning_trades st + 1
             \<and> strat_losing_trades st' = strat_losing_trades st
          else strat_winning_trades st' = strat_winning_trades st
             \<and> strat_losing_trades st' = strat_losing_trades st + 1))
   \<and> (strat_total_trades st = strat_winning_trades st + strat_losing_trades st \<longrightarrow>
      strat_total_trades (snd (remove_position st symb x))
        = strat_winning_trades (snd (remove_position st symb x))
          + strat_losing_trades (snd (remove_position st symb x)))"
proof (intro conjI)
  show "list_all (\<lambda>q. total_trades q = winning_trades q + losing_trades q)
        (ledger_trace (portfolio_init b cur opened) calls)"
    by (rule ledger_trace_counters) (simp add: portfolio_init_def)
qed (auto simp: close_position_def remove_position_def Let_def update_daily_pnl_def
        update_position_count_def split: option.splits if_splits)

text \<open>
  The sample position closed at its entry price, in the ledger and in a strategy: a profit
  of zero, one trade, no winning trade, one losing trade.
\<close>

theorem trade_counters_consistent_witness:
  "(let r = close_position (snd (add_position (portfolio_init 10000 ''USD'' 0) btc 1))
              ''BTC-USD'' 50000 ''manual'' ''unknown'' 2
    in fst r = Inr (Some 0) \<and> total_trades (snd r) = 1
       \<and> winning_trades (snd r) = 0 \<and> losing_trades (snd r) = 1)
   \<and> (let r = remove_position strategy_with_btc ''BTC-USD'' 50000
       in fst r = Some 0 \<and> strat_total_trades (snd r) = 1
          \<and> strat_winning_trades (snd r) = 0 \<and> strat_losing_trades (snd r) = 1)"
  using trade_counters_consistent[where pm = "snd (add_position (portfolio_init 10000 ''USD'' 0) btc 1)"
          and symb = "''BTC-USD''" and x = 50000 and why = "''manual''" and strat = "''unknown''"
          and now = 2 and v = 0
          and pm' = "snd (close_position (snd (add_position (portfolio_init 10000 ''USD'' 0) btc 1))
                            ''BTC-USD'' 50000 ''manual'' ''unknown'' 2)"
          and st = strategy_with_btc
          and st' = "snd (remove_position strategy_with_btc ''BTC-USD'' 50000)"
          and b = 10000 and cur = "''USD''" and opened = 0
          and calls = "[AddPosition btc 1, ClosePosition ''BTC-USD'' 50000 ''manual'' ''unknown'' 2]"]
  by (simp add: close_position_def add_position_def portfolio_init_def btc_def position_pnl_def
        remove_position_def strategy_with_btc_def update_daily_pnl_def update_position_count_def
        round_nearest_5000 Let_def)

section \<open>Properties of the indicators and of signal fusion\<close>

lemma score_step_total:
  "buy_score (score_step sc iw) + sell_score (score_step sc iw) + hold_score (score_step sc iw)
     = buy_score sc + sell_score sc + hold_score sc + strength (fst iw) * snd iw"
  by (simp add: score_step_def Let_def)

lemma foldl_score_step_total:
  "buy_score (foldl score_step sc xs) + sell_score (foldl score_step sc xs)
     + hold_score (foldl score_step sc xs)
     = buy_score sc + sell_score sc + hold_score sc
       + sum_list (map (\<lambda>iw. strength (fst iw) * snd iw) xs)"
  by (induction xs arbitrary: sc) (simp_all add: score_step_total)

lemma weighted_zip_div:
  "sum_list (map (\<lambda>iw. strength (fst iw) * snd iw) (zip inds (map (\<lambda>w. w / t) ws)))
     = sum_list (map (\<lambda>iw. strength (fst iw) * snd iw) (zip inds ws)) / (t::real)"
proof (induction inds arbitrary: ws)
  case Nil
  show ?case by simp
next
  case (Cons i inds)
  show ?case by (cases ws) (simp_all add: Cons.IH add_divide_distrib)
qed

text \<open>
  What the three scores of \<^verbatim>\<open>combine_signals\<close> add up to: the weighted mean of the
  strengths, which is 1 only when the strengths make it so.
\<close>

lemma combine_signals_total:
  assumes "indicators \<noteq> []" "length ws = length indicators" "sum_list ws \<noteq> 0"
  shows "\<exists>r. combine_signals indicators (Some ws) = Inr r
       \<and> buy_score (ir_value r) + sell_score (ir_value r) + hold_score (ir_value r)
           = sum_list (map (\<lambda>iw. strength (fst iw) * snd iw) (zip indicators ws)) / sum_list ws"
  using assms
  by (simp add: combine_signals_def Let_def foldl_score_step_total weighted_zip_div)

text \<open>
  Claim C1 at the readings and weights of \<^verbatim>\<open>test_combine_signals\<close>, which asserts that the
  scores add up to 1.0 to two places: \<^verbatim>\<open>combine_signals\<close> returns the scores \<open>299/470\<close>,
  \<open>0\<close> and \<open>5/47\<close>; their sum is \<open>349/470 \<approx> 0.74\<close>, more than a quarter away from 1.
\<close>

theorem combine_signals_test_scores:
  "combine_signals test_readings (Some [1, 3 / 2, 1, 6 / 5])
     = Inr \<lparr>ir_value = \<lparr>buy_score = 299 / 470, sell_score = 0, hold_score = 5 / 47\<rparr>,
            signal = BUY, strength = 299 / 470\<rparr>
   \<and> (299 / 470 + 0 + 5 / 47 :: real) = 349 / 470
   \<and> \<bar>(299 / 470 + 0 + 5 / 47 :: real) - 1\<bar> > 1 / 4"
  by (simp add: combine_signals_def test_readings_def score_step_def Let_def)

lemma ewm_from_zeros: "ewm_from a 0 den (replicate n 0) = replicate n 0"
  by (induction n arbitrary: den) (simp_all add: Let_def)

lemma diff_from_const: "diff_from c (replicate n c) = replicate n (Some 0)"
  by (induction n) simp_all

lemma gains_flat: "gains_of (diff (replicate (Suc n) c)) = replicate (Suc n) 0"
  by (simp add: gains_of_def diff_from_const)

lemma losses_flat: "losses_of (diff (replicate (Suc n) c)) = replicate (Suc n) 0"
  by (simp add: losses_of_def diff_from_const)

lemma rsi_series_zeros: "rsi_series (replicate n 0) (replicate n 0) = replicate n NaN"
  by (simp add: rsi_series_def np_sub_def)

lemma rsi_reading_nan: "rsi_reading NaN ob os = \<lparr>ir_value = NaN, signal = HOLD, strength = NaN\<rparr>"
  by (simp add: rsi_reading_def np_sub_def py_min_def Let_def)

text \<open>
  Claim C2 on a series of \<open>n\<close> identical prices, \<open>n\<close> at least \<open>period + 1\<close> and the period at
  least 1. \<^verbatim>\<open>rsi\<close> does not raise, but nothing falls back to a neutral value: all gains and
  losses are zero, the ratio \<^verbatim>\<open>rs\<close> is \<open>0/0\<close>, and the value returned is NaN, with signal
  \<^verbatim>\<open>HOLD\<close> and strength NaN. NaN is not within 5 of 50, which \<^verbatim>\<open>test_edge_cases\<close> asserts of
  this value: both comparisons are false.
\<close>

theorem rsi_flat_series_is_nan:
  assumes "1 \<le> period" "period + 1 \<le> int n"
  shows "rsi (replicate n c) period overbought oversold
           = Inr \<lparr>ir_value = NaN, signal = HOLD, strength = NaN\<rparr>
         \<and> \<not> np_le (Fin 45) NaN \<and> \<not> np_le NaN (Fin 55)"
proof -
  from assms obtain m where n: "n = Suc m" by (cases n) auto
  have "rsi (replicate (Suc m) c) period overbought oversold
           = Inr \<lparr>ir_value = NaN, signal = HOLD, strength = NaN\<rparr>"
    using assms unfolding n
    by (simp add: rsi_def validate_data_def ewm_mean_def gains_flat losses_flat Let_def
          ewm_from_zeros rsi_series_zeros rsi_reading_nan del: replicate.simps)
  then show ?thesis by (simp add: n)
qed

text \<open>The input of \<^verbatim>\<open>test_edge_cases\<close>: fifty prices of 100, with the default parameters.\<close>

theorem rsi_flat_series_is_nan_witness:
  "(1::int) \<le> 14 \<and> (14::int) + 1 \<le> int 50
   \<and> rsi (replicate 50 100) 14 70 30 = Inr \<lparr>ir_value = NaN, signal = HOLD, strength = NaN\<rparr>"
  using rsi_flat_series_is_nan[of 14 50 100 70 30] by simp

section \<open>Properties of the rate limiter\<close>

lemma window_get_set: "window_get (window_set w k v) k = v"
  by (induction w) (auto simp: window_get_def)

text \<open>
  What the lock does give: when \<^verbatim>\<open>can_make_request\<close> says yes and the request is recorded
  at the same clock reading with nothing in between, the count of that second stays within
  a cap that is a whole number.
\<close>

lemma check_then_record_within_cap:
  assumes "can_make_request rl t = (True, rl')" "requests_per_second rl = of_int cap"
  shows "window_get (second_window (record_request rl' t)) (current_second t) \<le> cap"
proof -
  from assms have "window_get (second_window rl') (current_second t) < cap"
    by (auto simp: can_make_request_def cleanup_windows_def Let_def split: if_splits)
  then show ?thesis by (simp add: record_request_def window_get_set)
qed

text \<open>
  Claim C3 with a cap of one request per second and two callers of \<^verbatim>\<open>acquire()\<close> that
  interleave within second 100: each reads its start time, each is told by
  \<^verbatim>\<open>can_make_request\<close> that the second is free (nothing is recorded yet), and each then
  records its request. Both calls return \<^verbatim>\<open>True\<close> and the bucket of second 100 holds two
  requests, twice the cap.
\<close>

theorem acquire_race_exceeds_cap:
  "run_schedule (system_init (limiter_init 1 60 10000) None 2) race_schedule
     = \<lparr>limiter = \<lparr>requests_per_second = 1, requests_per_minute = 60, requests_per_hour = 10000,
                    second_window = [(100, 2)], minute_window = [(1, 2)], hour_window = [(0, 2)]\<rparr>,
        callers = [(None, AcqReturned), (None, AcqReturned)]\<rparr>
   \<and> of_int (window_get
               (second_window
                  (limiter (run_schedule (system_init (limiter_init 1 60 10000) None 2)
                              race_schedule))) 100)
       > requests_per_second
           (limiter (run_schedule (system_init (limiter_init 1 60 10000) None 2) race_schedule))"
  by (simp add: run_schedule_def system_init_def limiter_init_def system_step_def
        race_schedule_def can_make_request_def cleanup_windows_def window_prune_def
        window_get_def window_total_def record_request_def current_second_def
        current_minute_def current_hour_def Let_def eval_nat_numeral)

end
